theory Spec2Isabelle
  imports Main "HOL-Library.Word"
begin

section \<open>Strings of the host language\<close>

text \<open>
  A JavaScript string is modelled as a \<^typ>\<open>string\<close>: one \<^typ>\<open>char\<close> per
  UTF-16 code unit, restricted to the code units below 256. \<open>length\<close> is the
  \<open>.length\<close> of the source.
\<close>

abbreviation DQ :: char where "DQ \<equiv> CHR 0x22"
abbreviation NL :: char where "NL \<equiv> CHR 0x0A"
abbreviation COMMA :: char where "COMMA \<equiv> CHR 0x2C"
abbreviation DOT :: char where "DOT \<equiv> CHR 0x2E"

text \<open>\<open>s.split(c)\<close> for a one-character separator: never the empty list.\<close>

fun splitOn :: "char \<Rightarrow> string \<Rightarrow> string list" where
  "splitOn c [] = [[]]"
| "splitOn c (x # xs) =
     (if x = c then [] # splitOn c xs
      else (case splitOn c xs of r # rs \<Rightarrow> (x # r) # rs | [] \<Rightarrow> [[x]]))"

text \<open>\<open>xs.join(sep)\<close> on an array of strings.\<close>

fun joinWith :: "string \<Rightarrow> string list \<Rightarrow> string" where
  "joinWith sep [] = []"
| "joinWith sep [x] = x"
| "joinWith sep (x # y # ys) = x @ sep @ joinWith sep (y # ys)"

text \<open>
  The white space and line terminators that \<open>String.prototype.trim\<close> strips, among
  the code units below 256: TAB, LF, VT, FF, CR, SP and NBSP.
\<close>

definition isWhiteSpace :: "char \<Rightarrow> bool" where
  "isWhiteSpace c = (c \<in> set [CHR 0x09, CHR 0x0A, CHR 0x0B, CHR 0x0C, CHR 0x0D, CHR 0x20, CHR 0xA0])"

definition trim :: "string \<Rightarrow> string" where
  "trim s = rev (dropWhile isWhiteSpace (rev (dropWhile isWhiteSpace s)))"

text \<open>\<open>s.replace(/"/g, '""')\<close>.\<close>

definition doubleQuotes :: "string \<Rightarrow> string" where
  "doubleQuotes s = concat (map (\<lambda>c. if c = DQ then [DQ, DQ] else [c]) s)"

text \<open>Decimal rendering of a non-negative integer, as \<open>String(n)\<close> gives it.\<close>

definition digitChar :: "nat \<Rightarrow> char" where
  "digitChar d = ''0123456789'' ! d"

fun showNat :: "nat \<Rightarrow> string" where
  "showNat n = (if n < 10 then [digitChar n] else showNat (n div 10) @ [digitChar (n mod 10)])"

declare showNat.simps [simp del]

definition showInt :: "int \<Rightarrow> string" where
  "showInt i = (if i < 0 then CHR ''-'' # showNat (nat (- i)) else showNat (nat i))"

section \<open>The quoted-field grammar: \<open>parseCsvLine\<close>\<close>

text \<open>
  The \<open>while\<close> loop of \<open>parseCsvLine\<close>, on the part of the line from index \<open>i\<close> on,
  with the loop's variables \<open>current\<close>, \<open>inQuotes\<close> and \<open>result\<close>.
\<close>

fun parseCsvLoop :: "string \<Rightarrow> string \<Rightarrow> bool \<Rightarrow> string list \<Rightarrow> string list" where
  "parseCsvLoop [] current inQuotes result = result @ [current]"
| "parseCsvLoop (c # rest) current inQuotes result =
     (if c = DQ then
        (case rest of
           d # rest' \<Rightarrow>
             if inQuotes \<and> d = DQ then parseCsvLoop rest' (current @ [DQ]) inQuotes result
             else parseCsvLoop rest current (\<not> inQuotes) result
         | [] \<Rightarrow> parseCsvLoop rest current (\<not> inQuotes) result)
      else if c = COMMA \<and> \<not> inQuotes then parseCsvLoop rest [] inQuotes (result @ [current])
      else parseCsvLoop rest (current @ [c]) inQuotes result)"

definition parseCsvLine :: "string \<Rightarrow> string list" where
  "parseCsvLine line = parseCsvLoop line [] False []"

section \<open>Field escaping of the CSV writer\<close>

text \<open>
  The test \<open>includes(',') || includes('"') || includes('\n')\<close> and the quoting that
  \<open>createCsvFile\<close> applies to a stringified field.
\<close>

definition needsQuoting :: "string \<Rightarrow> bool" where
  "needsQuoting s = (COMMA \<in> set s \<or> DQ \<in> set s \<or> NL \<in> set s)"

definition csvEscape :: "string \<Rightarrow> string" where
  "csvEscape s = (if needsQuoting s then [DQ] @ doubleQuotes s @ [DQ] else s)"

section \<open>Values\<close>

text \<open>
  The \<open>any\<close>-typed data the file creator receives. Numbers are the integers of
  magnitude below \<open>2^53\<close>, which \<open>String\<close> and \<open>JSON.stringify\<close> print in full; an
  \<open>Error\<close> instance carries its message and, when it has one, its stack. A plain object
  holds its own properties in insertion order, each key once. Members inherited from
  \<open>Object.prototype\<close> are not represented.
\<close>

datatype jsval =
    JUndefined
  | JNull
  | JBool bool
  | JNum int
  | JStr string
  | JArr "jsval list"
  | JObj "(string \<times> jsval) list"
  | JError string "string option"

datatype jsError = TypeError string | Error string

text \<open>
  The class of a thrown object, as its \<open>name\<close> tells it: the source throws instances of
  \<open>Error\<close> itself, and the platform throws \<open>TypeError\<close>.
\<close>

fun errorName :: "jsError \<Rightarrow> string" where
  "errorName (TypeError m) = ''TypeError''"
| "errorName (Error m) = ''Error''"

text \<open>\<open>typeof v === 'object'\<close> and \<open>Array.isArray(v)\<close>.\<close>

fun typeofObject :: "jsval \<Rightarrow> bool" where
  "typeofObject JNull = True"
| "typeofObject (JArr xs) = True"
| "typeofObject (JObj ps) = True"
| "typeofObject (JError m st) = True"
| "typeofObject v = False"

fun isArray :: "jsval \<Rightarrow> bool" where
  "isArray (JArr xs) = True"
| "isArray v = False"

subsection \<open>Property enumeration\<close>

text \<open>
  Own property keys are enumerated with the array indices first, in ascending numeric
  order, then the other string keys in insertion order. An array index is the canonical
  decimal form of a number below \<open>2^32 - 1\<close>.
\<close>

definition readNat :: "string \<Rightarrow> nat" where
  "readNat s = foldl (\<lambda>a c. 10 * a + (of_char c - 48)) 0 s"

definition isDigit :: "char \<Rightarrow> bool" where
  "isDigit c = (48 \<le> (of_char c :: nat) \<and> (of_char c :: nat) \<le> 57)"

definition isIndexKey :: "string \<Rightarrow> bool" where
  "isIndexKey s = (s \<noteq> [] \<and> list_all isDigit s \<and> (s = ''0'' \<or> hd s \<noteq> CHR ''0'')
                   \<and> readNat s < 4294967295)"

definition enumOrder :: "(string \<times> 'a) list \<Rightarrow> (string \<times> 'a) list" where
  "enumOrder ps = sort_key (\<lambda>p. readNat (fst p)) (filter (\<lambda>p. isIndexKey (fst p)) ps)
                  @ filter (\<lambda>p. \<not> isIndexKey (fst p)) ps"

text \<open>
  The own enumerable string-keyed properties of a value, in enumeration order: what
  \<open>for ... in\<close> with \<open>hasOwnProperty\<close>, \<open>Object.keys\<close> and object spread visit. The
  message and stack of an \<open>Error\<close> are not enumerable.
\<close>

fun ownEnumerable :: "jsval \<Rightarrow> (string \<times> jsval) list" where
  "ownEnumerable (JObj ps) = enumOrder ps"
| "ownEnumerable (JArr xs) = zip (map showNat [0..<length xs]) xs"
| "ownEnumerable (JStr s) = zip (map showNat [0..<length s]) (map (\<lambda>c. JStr [c]) s)"
| "ownEnumerable v = []"

text \<open>\<open>Object.keys(v)\<close>: a \<open>TypeError\<close> on \<open>null\<close> and \<open>undefined\<close>.\<close>

fun objectKeys :: "jsval \<Rightarrow> jsError + string list" where
  "objectKeys JNull = Inl (TypeError ''Cannot convert undefined or null to object'')"
| "objectKeys JUndefined = Inl (TypeError ''Cannot convert undefined or null to object'')"
| "objectKeys v = Inr (map fst (ownEnumerable v))"

text \<open>\<open>current[key]\<close> on a value whose \<open>typeof\<close> is \<open>'object'\<close>.\<close>

fun getProp :: "jsval \<Rightarrow> string \<Rightarrow> jsval" where
  "getProp (JObj ps) key = (case map_of ps key of Some v \<Rightarrow> v | None \<Rightarrow> JUndefined)"
| "getProp (JArr xs) key =
     (if key = ''length'' then JNum (int (length xs))
      else if isIndexKey key \<and> readNat key < length xs then xs ! readNat key
      else JUndefined)"
| "getProp (JError m st) key =
     (if key = ''message'' then JStr m
      else if key = ''stack'' then (case st of Some s \<Rightarrow> JStr s | None \<Rightarrow> JUndefined)
      else JUndefined)"
| "getProp v key = JUndefined"

text \<open>
  Defining an own property, as an object literal or a spread does: an existing key
  keeps its place, a new key goes last.
\<close>

fun setOwn :: "string \<Rightarrow> 'a \<Rightarrow> (string \<times> 'a) list \<Rightarrow> (string \<times> 'a) list" where
  "setOwn k v [] = [(k, v)]"
| "setOwn k v ((k', v') # ps) = (if k' = k then (k, v) # ps else (k', v') # setOwn k v ps)"

text \<open>
  The assignment \<open>obj[key] = value\<close> of a string to a plain object: the key
  \<open>__proto__\<close> reaches the inherited setter, which ignores a string.
\<close>

definition assignString :: "string \<Rightarrow> string \<Rightarrow> (string \<times> jsval) list \<Rightarrow> (string \<times> jsval) list" where
  "assignString k s ps = (if k = ''__proto__'' then ps else setOwn k (JStr s) ps)"

subsection \<open>String coercion and JSON text\<close>

text \<open>\<open>String(v)\<close>; an array joins its elements with commas, \<open>null\<close> and \<open>undefined\<close> elements empty.\<close>

fun jsString :: "jsval \<Rightarrow> string"
  and jsStringElems :: "jsval list \<Rightarrow> string list" where
  "jsString JUndefined = ''undefined''"
| "jsString JNull = ''null''"
| "jsString (JBool b) = (if b then ''true'' else ''false'')"
| "jsString (JNum i) = showInt i"
| "jsString (JStr s) = s"
| "jsString (JArr xs) = joinWith '','' (jsStringElems xs)"
| "jsString (JObj ps) = ''[object Object]''"
| "jsString (JError m st) = (if m = [] then ''Error'' else ''Error: '' @ m)"
| "jsStringElems [] = []"
| "jsStringElems (x # xs) =
     (if x = JNull \<or> x = JUndefined then [] else jsString x) # jsStringElems xs"

definition hexDigit :: "nat \<Rightarrow> char" where
  "hexDigit n = ''0123456789abcdef'' ! (n mod 16)"

text \<open>The escapes of a JSON string literal.\<close>

definition quoteJsonChar :: "char \<Rightarrow> string" where
  "quoteJsonChar c =
     (if c = DQ then [CHR 0x5C, DQ]
      else if c = CHR 0x5C then [CHR 0x5C, CHR 0x5C]
      else if c = CHR 0x08 then [CHR 0x5C, CHR ''b'']
      else if c = CHR 0x0C then [CHR 0x5C, CHR ''f'']
      else if c = NL then [CHR 0x5C, CHR ''n'']
      else if c = CHR 0x0D then [CHR 0x5C, CHR ''r'']
      else if c = CHR 0x09 then [CHR 0x5C, CHR ''t'']
      else if (of_char c :: nat) < 32
        then [CHR 0x5C, CHR ''u'', CHR ''0'', CHR ''0'',
              hexDigit (of_char c div 16), hexDigit (of_char c mod 16)]
      else [c])"

definition quoteJson :: "string \<Rightarrow> string" where
  "quoteJson s = [DQ] @ concat (map quoteJsonChar s) @ [DQ]"

text \<open>
  The brackets around the members of an array or object: \<open>gap\<close> is the indentation
  unit (empty for the compact form), \<open>stepback\<close> the indentation of the enclosing level.
\<close>

definition wrapJson :: "string \<Rightarrow> string \<Rightarrow> string \<Rightarrow> string \<Rightarrow> string list \<Rightarrow> string" where
  "wrapJson gap stepback opening closing members =
     (if members = [] then opening @ closing
      else if gap = [] then opening @ joinWith '','' members @ closing
      else opening @ [NL] @ stepback @ gap
           @ joinWith ('','' @ [NL] @ stepback @ gap) members
           @ [NL] @ stepback @ closing)"

text \<open>
  \<open>JSON.stringify\<close>: \<open>None\<close> is its \<open>undefined\<close>. An \<open>undefined\<close> property is left
  out, an \<open>undefined\<close> array element is written \<open>null\<close>, an \<open>Error\<close> has no enumerable
  property.
\<close>

fun serializeJson :: "string \<Rightarrow> string \<Rightarrow> jsval \<Rightarrow> string option"
  and serializeElems :: "string \<Rightarrow> string \<Rightarrow> jsval list \<Rightarrow> string list"
  and serializeProps :: "string \<Rightarrow> string \<Rightarrow> (string \<times> jsval) list \<Rightarrow> (string \<times> string option) list" where
  "serializeJson gap indent JUndefined = None"
| "serializeJson gap indent JNull = Some ''null''"
| "serializeJson gap indent (JBool b) = Some (if b then ''true'' else ''false'')"
| "serializeJson gap indent (JNum i) = Some (showInt i)"
| "serializeJson gap indent (JStr s) = Some (quoteJson s)"
| "serializeJson gap indent (JArr xs) =
     Some (wrapJson gap indent ''['' '']'' (serializeElems gap (indent @ gap) xs))"
| "serializeJson gap indent (JObj ps) =
     Some (wrapJson gap indent ''{'' ''}''
       (concat (map (\<lambda>p. case snd p of Some m \<Rightarrow> [m] | None \<Rightarrow> [])
          (enumOrder (serializeProps gap (indent @ gap) ps)))))"
| "serializeJson gap indent (JError m st) = Some ''{}''"
| "serializeElems gap indent [] = []"
| "serializeElems gap indent (x # xs) =
     (case serializeJson gap indent x of Some s \<Rightarrow> s | None \<Rightarrow> ''null'')
     # serializeElems gap indent xs"
| "serializeProps gap indent [] = []"
| "serializeProps gap indent ((k, v) # ps) =
     (k, map_option (\<lambda>s. quoteJson k @ '':'' @ (if gap = [] then [] else '' '') @ s)
           (serializeJson gap indent v))
     # serializeProps gap indent ps"

text \<open>
  \<open>JSON.stringify(v)\<close> and \<open>JSON.stringify(v, null, 2)\<close> where the source uses the
  result as a string (it always applies them to a value of type \<open>'object'\<close>).
\<close>

definition jsonStringify :: "string \<Rightarrow> jsval \<Rightarrow> string" where
  "jsonStringify gap v = (case serializeJson gap [] v of Some s \<Rightarrow> s | None \<Rightarrow> ''undefined'')"

section \<open>Flattening and dot-path lookup\<close>

definition isPlainObject :: "jsval \<Rightarrow> bool" where
  "isPlainObject v = (typeofObject v \<and> v \<noteq> JNull \<and> \<not> isArray v)"

definition fullKey :: "string \<Rightarrow> string \<Rightarrow> string" where
  "fullKey prefix key = (if prefix \<noteq> [] then prefix @ ''.'' @ key else key)"

text \<open>
  \<open>flattenObject\<close>: the \<open>for ... in\<close> loop visits the own enumerable keys of \<open>obj\<close>;
  the keys of an array are its indices, from \<open>0\<close> on. Each iteration calls
  \<open>obj.hasOwnProperty(key)\<close>: on an object with an own property of the name
  \<open>hasOwnProperty\<close>, whose value is no function, the call throws a \<open>TypeError\<close>.
\<close>

fun concatResults :: "(jsError + string list) list \<Rightarrow> jsError + string list" where
  "concatResults [] = Inr []"
| "concatResults (r # rs) =
     (case r of
        Inl e \<Rightarrow> Inl e
      | Inr ks \<Rightarrow> (case concatResults rs of Inl e \<Rightarrow> Inl e | Inr ks' \<Rightarrow> Inr (ks @ ks')))"

fun flattenObject :: "jsval \<Rightarrow> string \<Rightarrow> jsError + string list"
  and flattenProps :: "(string \<times> jsval) list \<Rightarrow> string \<Rightarrow> (string \<times> (jsError + string list)) list"
  and flattenElems :: "jsval list \<Rightarrow> nat \<Rightarrow> string \<Rightarrow> (jsError + string list) list" where
  "flattenObject (JObj ps) prefix =
     (if ''hasOwnProperty'' \<in> set (map fst ps)
      then Inl (TypeError ''obj.hasOwnProperty is not a function'')
      else concatResults (map snd (enumOrder (flattenProps ps prefix))))"
| "flattenObject (JArr xs) prefix = concatResults (flattenElems xs 0 prefix)"
| "flattenObject (JStr s) prefix = Inr (map (\<lambda>i. fullKey prefix (showNat i)) [0..<length s])"
| "flattenObject JUndefined prefix = Inr []"
| "flattenObject JNull prefix = Inr []"
| "flattenObject (JBool b) prefix = Inr []"
| "flattenObject (JNum i) prefix = Inr []"
| "flattenObject (JError m st) prefix = Inr []"
| "flattenProps [] prefix = []"
| "flattenProps ((k, v) # ps) prefix =
     (k, if isPlainObject v then flattenObject v (fullKey prefix k) else Inr [fullKey prefix k])
     # flattenProps ps prefix"
| "flattenElems [] i prefix = []"
| "flattenElems (x # xs) i prefix =
     (if isPlainObject x then flattenObject x (fullKey prefix (showNat i))
      else Inr [fullKey prefix (showNat i)])
     # flattenElems xs (Suc i) prefix"

text \<open>A \<open>Set\<close> keeps each element at the place of its first insertion.\<close>

definition setAdd :: "'a list \<Rightarrow> 'a \<Rightarrow> 'a list" where
  "setAdd acc x = (if x \<in> set acc then acc else acc @ [x])"

text \<open>
  \<open>extractHeadersFromObjects\<close>: the \<open>forEach\<close> over the objects, with the set of headers
  collected so far; it ends at the first object whose flattening throws.
\<close>

fun extractLoop :: "string list \<Rightarrow> jsval list \<Rightarrow> jsError + string list" where
  "extractLoop headers [] = Inr headers"
| "extractLoop headers (obj # objs) =
     (case flattenObject obj [] of
        Inl e \<Rightarrow> Inl e
      | Inr ks \<Rightarrow> extractLoop (foldl setAdd headers ks) objs)"

definition extractHeadersFromObjects :: "jsval list \<Rightarrow> jsError + string list" where
  "extractHeadersFromObjects objects = extractLoop [] objects"

fun getNestedLoop :: "string list \<Rightarrow> jsval \<Rightarrow> jsval" where
  "getNestedLoop [] current = current"
| "getNestedLoop (key # keys) current =
     (if current = JNull \<or> current = JUndefined \<or> \<not> typeofObject current then JUndefined
      else getNestedLoop keys (getProp current key))"

definition getNestedValue :: "jsval \<Rightarrow> string \<Rightarrow> jsval" where
  "getNestedValue obj path = getNestedLoop (splitOn DOT path) obj"

section \<open>Writing CSV\<close>

text \<open>The cell of one header, as both object branches of \<open>createCsvFile\<close> compute it.\<close>

definition csvField :: "jsval \<Rightarrow> string" where
  "csvField v =
     (if v = JNull \<or> v = JUndefined then []
      else csvEscape (if typeofObject v then jsonStringify [] v else jsString v))"

definition objectRow :: "jsval \<Rightarrow> string list \<Rightarrow> string" where
  "objectRow item allHeaders =
     joinWith '','' (map (\<lambda>header. csvField (getNestedValue item header)) allHeaders)"

text \<open>A row of the branch for arrays of arrays or primitives.\<close>

fun plainRow :: "jsval \<Rightarrow> string" where
  "plainRow (JArr cells) = joinWith '','' (map (\<lambda>cell. csvEscape (jsString cell)) cells)"
| "plainRow row = jsString row"

text \<open>
  \<open>createCsvFile\<close>: the content it writes, or the exception it throws. \<open>headers\<close> is
  \<open>None\<close> when the caller gives no header list; a given list, even empty, is truthy.
\<close>

definition createCsvFile :: "jsval \<Rightarrow> string list option \<Rightarrow> jsError + string" where
  "createCsvFile data headers =
     (case data of
        JArr xs \<Rightarrow>
          if length xs = 0 then Inr ''No data''
          else if typeofObject (hd xs) \<and> \<not> isArray (hd xs) then
            (case (case headers of Some hs \<Rightarrow> Inr hs
                   | None \<Rightarrow> extractHeadersFromObjects xs) of
               Inl e \<Rightarrow> Inl e
             | Inr allHeaders \<Rightarrow>
                 Inr (joinWith '','' allHeaders @ [NL]
                      @ concat (map (\<lambda>item. objectRow item allHeaders @ [NL]) xs)))
          else
            Inr ((case headers of Some hs \<Rightarrow> joinWith '','' hs @ [NL] | None \<Rightarrow> [])
                 @ concat (map (\<lambda>row. plainRow row @ [NL]) xs))
      | _ \<Rightarrow>
          if typeofObject data then
            (case (case headers of Some hs \<Rightarrow> Inr hs | None \<Rightarrow> objectKeys data) of
               Inl e \<Rightarrow> Inl e
             | Inr allHeaders \<Rightarrow>
                 Inr (joinWith '','' allHeaders @ [NL] @ objectRow data allHeaders @ [NL]))
          else
            (case headers of
               Some hs \<Rightarrow> Inr (joinWith '','' hs @ [NL] @ jsString data @ [NL])
             | None \<Rightarrow> Inr (''Value'' @ [NL] @ jsString data @ [NL])))"

section \<open>Reading CSV and text\<close>

text \<open>\<open>values[index] || ''\<close>.\<close>

definition valueOrEmpty :: "string list \<Rightarrow> nat \<Rightarrow> string" where
  "valueOrEmpty values index =
     (if index < length values \<and> values ! index \<noteq> [] then values ! index else [])"

text \<open>The object that the \<open>forEach\<close> over the headers builds for one line.\<close>

definition rowObject :: "string list \<Rightarrow> string list \<Rightarrow> jsval" where
  "rowObject hs values =
     JObj (foldl (\<lambda>obj (header, index). assignString header (valueOrEmpty values index) obj)
             [] (zip hs [0..<length hs]))"

definition parseCsvData :: "jsval \<Rightarrow> string list option \<Rightarrow> jsError + jsval" where
  "parseCsvData csvString headers =
     (case csvString of
        JStr s \<Rightarrow>
          (let lines = splitOn NL (trim s) in
           if length lines = 0 then Inr (JArr [])
           else (case headers of
                   Some hs \<Rightarrow> Inr (JArr (map (\<lambda>line. rowObject hs (parseCsvLine line)) lines))
                 | None \<Rightarrow>
                     (let firstLineHeaders = parseCsvLine (hd lines)
                      in Inr (JArr (map (\<lambda>line. rowObject firstLineHeaders (parseCsvLine line))
                                      (tl lines))))))
      | _ \<Rightarrow> Inl (Error ''CSV data must be a string for conversion''))"

text \<open>\<open>parseTextData\<close>; \<open>now\<close> is the reading of the clock as an ISO string.\<close>

definition lineRecord :: "string \<Rightarrow> nat \<Rightarrow> jsval" where
  "lineRecord line index =
     JObj [(''lineNumber'', JNum (int index + 1)),
           (''content'', JStr (trim line)),
           (''characterCount'', JNum (int (length line)))]"

definition parseTextData :: "string \<Rightarrow> jsval \<Rightarrow> jsval" where
  "parseTextData now text =
     (case text of
        JStr s \<Rightarrow>
          (let cleanedText = trim s; lines = splitOn NL cleanedText in
           if length lines > 1
           then JArr (map (\<lambda>(line, index). lineRecord line index) (zip lines [0..<length lines]))
           else JObj [(''content'', JStr cleanedText), (''timestamp'', JStr now),
                      (''length'', JNum (int (length cleanedText)))])
      | _ \<Rightarrow> JObj [(''content'', JStr (jsString text)), (''timestamp'', JStr now)])"

text \<open>\<open>parseJsonData\<close>; \<open>parse\<close> is \<open>JSON.parse\<close>, \<open>None\<close> where it throws.\<close>

definition parseJsonData :: "(string \<Rightarrow> jsval option) \<Rightarrow> jsval \<Rightarrow> jsError + jsval" where
  "parseJsonData parse data =
     (case data of
        JStr s \<Rightarrow> (case parse s of Some v \<Rightarrow> Inr v
                   | None \<Rightarrow> Inl (Error ''Invalid JSON string provided for conversion''))
      | _ \<Rightarrow> Inr data)"

section \<open>Writing text and JSON\<close>

definition createTextFile :: "jsval \<Rightarrow> string" where
  "createTextFile data =
     (case data of
        JStr s \<Rightarrow> s
      | JError m st \<Rightarrow>
          ''ERROR: '' @ m @ [NL, NL] @ ''STACK TRACE:'' @ [NL]
          @ (case st of Some s \<Rightarrow> if s \<noteq> [] then s else ''No stack trace''
             | None \<Rightarrow> ''No stack trace'')
      | _ \<Rightarrow> if typeofObject data then jsonStringify ''  '' data else jsString data)"

text \<open>
  The value \<open>jsonData\<close> of \<open>createJsonFile\<close>, then \<open>finalData\<close>: the spread of
  \<open>jsonData\<close> followed by the \<open>_metadata\<close> property. \<open>tData\<close> and \<open>tMeta\<close> are the two
  readings of the clock.
\<close>

definition jsonData :: "(string \<Rightarrow> jsval option) \<Rightarrow> string \<Rightarrow> jsval \<Rightarrow> jsval" where
  "jsonData parse tData data =
     (case data of
        JStr s \<Rightarrow> (case parse s of Some v \<Rightarrow> v
                   | None \<Rightarrow> JObj [(''content'', JStr s), (''timestamp'', JStr tData)])
      | JError m st \<Rightarrow>
          JObj [(''error'', JStr m),
                (''stack'', case st of Some s \<Rightarrow> JStr s | None \<Rightarrow> JUndefined),
                (''timestamp'', JStr tData), (''type'', JStr ''Error'')]
      | _ \<Rightarrow> data)"

definition metadata :: "string \<Rightarrow> jsval" where
  "metadata tMeta =
     JObj [(''generatedAt'', JStr tMeta), (''source'', JStr ''error-notifier''),
           (''format'', JStr ''json'')]"

definition finalData :: "(string \<Rightarrow> jsval option) \<Rightarrow> string \<Rightarrow> string \<Rightarrow> jsval \<Rightarrow> (string \<times> jsval) list" where
  "finalData parse tData tMeta data =
     setOwn ''_metadata'' (metadata tMeta) (ownEnumerable (jsonData parse tData data))"

definition createJsonFile :: "(string \<Rightarrow> jsval option) \<Rightarrow> string \<Rightarrow> string \<Rightarrow> jsval \<Rightarrow> string" where
  "createJsonFile parse tData tMeta data =
     jsonStringify ''  '' (JObj (finalData parse tData tMeta data))"

section \<open>Options, output format and file name\<close>

text \<open>
  The options object. A field that the caller leaves out is \<open>None\<close>; the source's
  \<open>from\<close> and \<open>to\<close> are \<open>fromFormat\<close> and \<open>toFormat\<close> here.
\<close>

record options =
  fileName :: "string option"
  fileType :: "string option"
  fromFormat :: "string option"
  toFormat :: "string option"
  csvHeaders :: "string list option"

text \<open>Truthiness of an optional string: \<open>undefined\<close> and the empty string are falsy.\<close>

fun truthy :: "string option \<Rightarrow> bool" where
  "truthy None = False"
| "truthy (Some s) = (s \<noteq> [])"

definition validFormats :: "string list" where
  "validFormats = [''txt'', ''json'', ''csv'']"

definition msgBothModes :: string where
  "msgBothModes = ''Cannot use both fileType and from/to options together. Use either fileType for direct creation or from/to for conversion.''"

definition msgTogether :: string where
  "msgTogether = ''Both '' @ [DQ] @ ''from'' @ [DQ] @ '' and '' @ [DQ] @ ''to'' @ [DQ]
                 @ '' options must be provided together for format conversion.''"

definition msgInvalid :: "string \<Rightarrow> string \<Rightarrow> string" where
  "msgInvalid option tag =
     ''Invalid '' @ option @ '': '' @ tag @ ''. Must be one of: '' @ joinWith '', '' validFormats"

definition msgSame :: "string \<Rightarrow> string \<Rightarrow> string" where
  "msgSame f t = ''Cannot convert from '' @ f @ '' to '' @ t
                 @ '' (same format). Use fileType option instead.''"

definition validateOptions :: "options \<Rightarrow> jsError + unit" where
  "validateOptions opts =
     (let hasFileType = truthy (fileType opts);
          hasFrom = truthy (fromFormat opts);
          hasTo = truthy (toFormat opts)
      in if hasFileType \<and> (hasFrom \<or> hasTo) then Inl (Error msgBothModes)
         else if (hasFrom \<and> \<not> hasTo) \<or> (\<not> hasFrom \<and> hasTo) then Inl (Error msgTogether)
         else if truthy (fileType opts) \<and> the (fileType opts) \<notin> set validFormats
           then Inl (Error (msgInvalid ''fileType'' (the (fileType opts))))
         else if truthy (fromFormat opts) \<and> the (fromFormat opts) \<notin> set validFormats
           then Inl (Error (msgInvalid ''from format'' (the (fromFormat opts))))
         else if truthy (toFormat opts) \<and> the (toFormat opts) \<notin> set validFormats
           then Inl (Error (msgInvalid ''to format'' (the (toFormat opts))))
         else if truthy (fromFormat opts) \<and> truthy (toFormat opts)
                 \<and> the (fromFormat opts) = the (toFormat opts)
           then Inl (Error (msgSame (the (fromFormat opts)) (the (toFormat opts))))
         else Inr ())"

text \<open>The output format and the flag \<open>shouldConvert\<close>.\<close>

definition outputFormat :: "options \<Rightarrow> string \<times> bool" where
  "outputFormat opts =
     (if truthy (fromFormat opts) \<and> truthy (toFormat opts) then (the (toFormat opts), True)
      else if truthy (fileType opts) then (the (fileType opts), False)
      else (''txt'', False))"

text \<open>\<open>crypto.randomBytes(4).toString('hex')\<close>: two lower-case hex digits for each byte.\<close>

definition hexByte :: "8 word \<Rightarrow> string" where
  "hexByte b = [hexDigit (unat b div 16), hexDigit (unat b mod 16)]"

definition hexBytes :: "8 word \<times> 8 word \<times> 8 word \<times> 8 word \<Rightarrow> string" where
  "hexBytes r = (case r of (a, b, c, d) \<Rightarrow> hexByte a @ hexByte b @ hexByte c @ hexByte d)"

text \<open>
  The name of the file: \<open>timestamp\<close> is \<open>new Date().getTime()\<close>, \<open>random\<close> the four
  random bytes, \<open>fmt\<close> the output format.
\<close>

definition resolveFileName ::
    "string option \<Rightarrow> string \<Rightarrow> nat \<Rightarrow> 8 word \<times> 8 word \<times> 8 word \<times> 8 word \<Rightarrow> string" where
  "resolveFileName name fmt timestamp random =
     (if \<not> truthy name
      then ''alert-'' @ showNat timestamp @ ''-'' @ hexBytes random @ ''.'' @ fmt
      else if DOT \<notin> set (the name) then the name @ ''.'' @ fmt
      else the name)"

text \<open>The lower-case hexadecimal digits.\<close>

definition isHexChar :: "char \<Rightarrow> bool" where
  "isHexChar c = (c \<in> set ''0123456789abcdef'')"

section \<open>Creating the file\<close>

text \<open>
  What a call reads from its environment: \<open>JSON.parse\<close> (\<open>None\<close> where it throws), the
  temporary directory of the configuration, \<open>path.join\<close>, the clock and the random bytes.
\<close>

record env =
  jsonParse :: "string \<Rightarrow> jsval option"
  tempDir :: string
  pathJoin :: "string \<Rightarrow> string \<Rightarrow> string"
  timestampMillis :: nat
  randomBytes :: "8 word \<times> 8 word \<times> 8 word \<times> 8 word"
  isoText :: string
  isoData :: string
  isoMeta :: string

text \<open>
  \<open>convertAndCreateFile\<close> and \<open>createFileDirectly\<close>: the content written, \<open>None\<close> when
  no branch of the \<open>switch\<close> writes.
\<close>

definition convertAndCreateFile ::
    "env \<Rightarrow> jsval \<Rightarrow> string \<Rightarrow> string \<Rightarrow> string list option \<Rightarrow> jsError + string option" where
  "convertAndCreateFile e data f t hs =
     (if f = ''json'' then
        (if t = ''csv'' then
           (case parseJsonData (jsonParse e) data of Inl x \<Rightarrow> Inl x
            | Inr v \<Rightarrow> map_sum id Some (createCsvFile v hs))
         else if t = ''txt'' then
           (case parseJsonData (jsonParse e) data of Inl x \<Rightarrow> Inl x
            | Inr v \<Rightarrow> Inr (Some (createTextFile v)))
         else Inr None)
      else if f = ''csv'' then
        (if t = ''json'' then
           (case parseCsvData data hs of Inl x \<Rightarrow> Inl x
            | Inr v \<Rightarrow> Inr (Some (createJsonFile (jsonParse e) (isoData e) (isoMeta e) v)))
         else if t = ''txt'' then
           (case parseCsvData data hs of Inl x \<Rightarrow> Inl x
            | Inr v \<Rightarrow> Inr (Some (createTextFile v)))
         else Inr None)
      else if f = ''txt'' then
        (if t = ''json'' then
           Inr (Some (createJsonFile (jsonParse e) (isoData e) (isoMeta e)
                        (parseTextData (isoText e) data)))
         else if t = ''csv'' then
           map_sum id Some (createCsvFile (parseTextData (isoText e) data) hs)
         else Inr None)
      else Inr None)"

definition createFileDirectly ::
    "env \<Rightarrow> jsval \<Rightarrow> string \<Rightarrow> string list option \<Rightarrow> jsError + string option" where
  "createFileDirectly e data ft hs =
     (if ft = ''txt'' then Inr (Some (createTextFile data))
      else if ft = ''json'' then
        Inr (Some (createJsonFile (jsonParse e) (isoData e) (isoMeta e) data))
      else if ft = ''csv'' then map_sum id Some (createCsvFile data hs)
      else Inl (Error (''Unsupported file type: '' @ ft)))"

text \<open>
  \<open>createFileFromData\<close>: the path returned, \<open>path.join(tempDir, fileName)\<close>, and the
  content written to it, or the exception thrown.
\<close>

definition createFileFromData :: "env \<Rightarrow> jsval \<Rightarrow> options \<Rightarrow> jsError + string \<times> string option" where
  "createFileFromData e data opts =
     (case validateOptions opts of
        Inl x \<Rightarrow> Inl x
      | Inr u \<Rightarrow>
          (let fmt = fst (outputFormat opts);
               shouldConvert = snd (outputFormat opts);
               name = resolveFileName (fileName opts) fmt (timestampMillis e) (randomBytes e)
           in case (if shouldConvert \<and> truthy (fromFormat opts) \<and> truthy (toFormat opts)
                    then convertAndCreateFile e data (the (fromFormat opts)) (the (toFormat opts))
                           (csvHeaders opts)
                    else createFileDirectly e data fmt (csvHeaders opts)) of
                Inl x \<Rightarrow> Inl x
              | Inr written \<Rightarrow> Inr (pathJoin e (tempDir e) name, written)))"

section \<open>The validation rules in the words of the specification\<close>

text \<open>
  The four rules that the specification lists for the options, as predicates, to compare
  \<open>validateOptions\<close> with. An option is given when it is truthy.
\<close>

definition bothModes :: "options \<Rightarrow> bool" where
  "bothModes opts =
     (truthy (fileType opts) \<and> truthy (fromFormat opts) \<and> truthy (toFormat opts))"

definition oneOfPair :: "options \<Rightarrow> bool" where
  "oneOfPair opts = (truthy (fromFormat opts) \<noteq> truthy (toFormat opts))"

definition givenTag :: "string \<Rightarrow> string option \<Rightarrow> (string \<times> string) list" where
  "givenTag name tag = (if truthy tag then [(name, the tag)] else [])"

definition invalidTags :: "options \<Rightarrow> (string \<times> string) list" where
  "invalidTags opts =
     filter (\<lambda>p. snd p \<notin> set [''json'', ''csv'', ''txt''])
       (givenTag ''fileType'' (fileType opts) @ givenTag ''from format'' (fromFormat opts)
        @ givenTag ''to format'' (toFormat opts))"

definition sameFormat :: "options \<Rightarrow> bool" where
  "sameFormat opts =
     (truthy (fromFormat opts) \<and> truthy (toFormat opts)
      \<and> the (fromFormat opts) = the (toFormat opts))"

section \<open>Parsing and writing back\<close>

text \<open>
  The composition \<open>serialize(parse(s))\<close> of the specification: \<open>parseCsvData\<close> with
  the headers taken from the first line, then \<open>createCsvFile\<close> with those headers, in
  the order of the first line, as the header list.
\<close>

definition reserialize :: "string \<Rightarrow> jsError + string" where
  "reserialize s =
     (case parseCsvData (JStr s) None of
        Inl e \<Rightarrow> Inl e
      | Inr table \<Rightarrow> createCsvFile table (Some (parseCsvLine (hd (splitOn NL (trim s))))))"


section \<open>Properties\<close>

subsection \<open>Splitting and joining\<close>

lemma splitOn_nonempty: "splitOn c s \<noteq> []"
  by (induction s) (simp_all split: list.splits)

lemma getNestedValue_null: "getNestedValue JNull path = JUndefined"
proof -
  obtain k ks where "splitOn DOT path = k # ks"
    using splitOn_nonempty [of DOT path] by (cases "splitOn DOT path") auto
  then show ?thesis by (simp add: getNestedValue_def)
qed

lemma objectRow_null: "objectRow JNull hs = joinWith '','' (map (\<lambda>h. []) hs)"
  by (simp add: objectRow_def getNestedValue_null csvField_def)

subsection \<open>The quoted-field grammar reads back what the writer quotes\<close>




subsection \<open>Closed evaluation\<close>

lemmas csv_eval = createCsvFile_def objectRow_def csvField_def getNestedValue_def
  jsonStringify_def wrapJson_def enumOrder_def isIndexKey_def isDigit_def quoteJson_def
  quoteJsonChar_def csvEscape_def needsQuoting_def doubleQuotes_def showInt_def
  digitChar_def extractHeadersFromObjects_def setAdd_def fullKey_def isPlainObject_def
  showNat.simps

lemmas parse_eval = parseCsvData_def trim_def rowObject_def parseCsvLine_def
  assignString_def valueOrEmpty_def upt_rec

subsection \<open>A single nested object written as CSV\<close>

text \<open>
  The branch for an array of objects takes its headers from \<open>extractHeadersFromObjects\<close>
  and so writes the nested object in dot-notation columns.
\<close>

lemma createCsvFile_array_of_object_flattened:
  "createCsvFile (JArr [JObj [(''a'', JNum 1), (''b'', JObj [(''c'', JNum 2), (''d'', JNum 3)])]]) None
   = Inr (''a,b.c,b.d'' @ [NL] @ ''1,2,3'' @ [NL])"
  by (simp add: csv_eval)

text \<open>
  Claim C1. The single object \<open>{a:1, b:{c:2, d:3}}\<close> with no header list: the branch for
  a single object takes its headers from \<open>Object.keys\<close>, so the header line is \<open>a,b\<close>
  and the cell of \<open>b\<close> is the quoted JSON text of the nested object, not the header line
  \<open>a,b.c,b.d\<close> and the row \<open>1,2,3\<close>.
\<close>

theorem createCsvFile_single_object_not_flattened:
  "createCsvFile (JObj [(''a'', JNum 1), (''b'', JObj [(''c'', JNum 2), (''d'', JNum 3)])]) None
   = Inr (''a,b'' @ [NL] @ ''1,'' @ [DQ] @ ''{'' @ [DQ, DQ] @ ''c'' @ [DQ, DQ] @ '':2,''
          @ [DQ, DQ] @ ''d'' @ [DQ, DQ] @ '':3}'' @ [DQ] @ [NL])"
  by (simp add: csv_eval)

subsection \<open>Empty CSV input\<close>

lemma parseCsvData_empty_auto_headers: "parseCsvData (JStr []) None = Inr (JArr [])"
  by (simp add: parse_eval)

text \<open>
  Claim C5. Empty CSV input with the header list \<open>["a", "b"]\<close>: the split of the empty
  string is the one empty line, the test \<open>lines.length === 0\<close> fails, and the result is a
  table of one row with both fields empty, not the empty table.
\<close>

theorem parseCsvData_empty_with_headers:
  "parseCsvData (JStr []) (Some [''a'', ''b''])
   = Inr (JArr [JObj [(''a'', JStr []), (''b'', JStr [])]])"
  by (simp add: parse_eval)

subsection \<open>\<open>null\<close> written as CSV\<close>

text \<open>
  Claim C10. Writing \<open>null\<close> as CSV with no header list throws the \<open>TypeError\<close> of
  \<open>Object.keys(null)\<close>, also through \<open>createFileFromData\<close> with \<open>fileType: 'csv'\<close>; with a
  header list it writes the header line and one row in which every field is empty.
\<close>

theorem createCsvFile_null:
  "createCsvFile JNull None = Inl (TypeError ''Cannot convert undefined or null to object'')
   \<and> createCsvFile JNull (Some hs)
       = Inr (joinWith '','' hs @ [NL] @ joinWith '','' (map (\<lambda>h. []) hs) @ [NL])
   \<and> createFileFromData e JNull
         \<lparr>fileName = n, fileType = Some ''csv'', fromFormat = None, toFormat = None,
          csvHeaders = None\<rparr>
       = Inl (TypeError ''Cannot convert undefined or null to object'')"
proof -
  have a: "createCsvFile JNull None = Inl (TypeError ''Cannot convert undefined or null to object'')"
    by (simp add: createCsvFile_def)
  have b: "createCsvFile JNull (Some hs)
       = Inr (joinWith '','' hs @ [NL] @ joinWith '','' (map (\<lambda>h. []) hs) @ [NL])"
    by (simp add: createCsvFile_def objectRow_null)
  have c: "createFileFromData e JNull
         \<lparr>fileName = n, fileType = Some ''csv'', fromFormat = None, toFormat = None,
          csvHeaders = None\<rparr>
       = Inl (TypeError ''Cannot convert undefined or null to object'')"
    by (simp add: createFileFromData_def validateOptions_def validFormats_def outputFormat_def
        createFileDirectly_def a)
  from a b c show ?thesis by blast
qed

theorem createCsvFile_null_witness:
  "createCsvFile JNull (Some [''x'', ''y'', ''z'']) = Inr (''x,y,z'' @ [NL] @ '',,'' @ [NL])"
  using createCsvFile_null [of "[''x'', ''y'', ''z'']"] by simp

subsection \<open>Validation of the options\<close>

lemma validateOptions_throws_Error:
  "validateOptions opts = Inl x \<Longrightarrow> errorName x = ''Error''"
  by (auto simp add: validateOptions_def Let_def split: if_splits)

text \<open>
  The error of a violated rule is an instance of \<open>Error\<close> itself, as the error of
  \<open>parseCsvData\<close> on data that is no string is: no class of its own marks it.
\<close>

theorem validateOptions_error_class_counterexample:
  "validateOptions \<lparr>fileName = None, fileType = Some ''json'', fromFormat = Some ''csv'',
                    toFormat = Some ''txt'', csvHeaders = None\<rparr> = Inl (Error msgBothModes)
   \<and> errorName (Error msgBothModes) = ''Error''
   \<and> errorName (Error msgBothModes) \<noteq> ''ConfigurationError''
   \<and> parseCsvData (JNum 1) None = Inl (Error ''CSV data must be a string for conversion'')"
  by (simp add: validateOptions_def parseCsvData_def)

text \<open>
  Claim C4, amended. \<open>validateOptions\<close> checks the rules in the order (1) a \<open>fileType\<close>
  together with a \<open>from\<close>/\<open>to\<close> pair, (2) exactly one of \<open>from\<close> and \<open>to\<close>, (3) a given
  tag outside \<open>json\<close>, \<open>csv\<close>, \<open>txt\<close>, (4) \<open>from\<close> equal to \<open>to\<close>; the first rule violated
  decides the error thrown, the error of rule (3) names the first invalid tag and the
  valid set, every error thrown is an instance of \<open>Error\<close> itself, and options that
  violate no rule pass.
\<close>

theorem validateOptions_rule_order:
  "(bothModes opts \<longrightarrow> validateOptions opts = Inl (Error msgBothModes))
   \<and> (\<not> bothModes opts \<and> oneOfPair opts \<longrightarrow>
        validateOptions opts
          = Inl (Error (if truthy (fileType opts) then msgBothModes else msgTogether)))
   \<and> (\<not> bothModes opts \<and> \<not> oneOfPair opts \<and> invalidTags opts \<noteq> [] \<longrightarrow>
        validateOptions opts
          = Inl (Error (msgInvalid (fst (hd (invalidTags opts))) (snd (hd (invalidTags opts))))))
   \<and> (\<not> bothModes opts \<and> \<not> oneOfPair opts \<and> invalidTags opts = [] \<and> sameFormat opts \<longrightarrow>
        validateOptions opts
          = Inl (Error (msgSame (the (fromFormat opts)) (the (toFormat opts)))))
   \<and> (\<not> bothModes opts \<and> \<not> oneOfPair opts \<and> invalidTags opts = [] \<and> \<not> sameFormat opts \<longrightarrow>
        validateOptions opts = Inr ())
   \<and> (\<forall>x. validateOptions opts = Inl x \<longrightarrow> errorName x = ''Error'')"
proof -
  have rules: "(bothModes opts \<longrightarrow> validateOptions opts = Inl (Error msgBothModes))
   \<and> (\<not> bothModes opts \<and> oneOfPair opts \<longrightarrow>
        validateOptions opts
          = Inl (Error (if truthy (fileType opts) then msgBothModes else msgTogether)))
   \<and> (\<not> bothModes opts \<and> \<not> oneOfPair opts \<and> invalidTags opts \<noteq> [] \<longrightarrow>
        validateOptions opts
          = Inl (Error (msgInvalid (fst (hd (invalidTags opts))) (snd (hd (invalidTags opts))))))
   \<and> (\<not> bothModes opts \<and> \<not> oneOfPair opts \<and> invalidTags opts = [] \<and> sameFormat opts \<longrightarrow>
        validateOptions opts
          = Inl (Error (msgSame (the (fromFormat opts)) (the (toFormat opts)))))
   \<and> (\<not> bothModes opts \<and> \<not> oneOfPair opts \<and> invalidTags opts = [] \<and> \<not> sameFormat opts \<longrightarrow>
        validateOptions opts = Inr ())"
    by (auto simp add: validateOptions_def bothModes_def oneOfPair_def invalidTags_def
        givenTag_def sameFormat_def validFormats_def Let_def split: if_splits)
  have "\<forall>x. validateOptions opts = Inl x \<longrightarrow> errorName x = ''Error''"
    using validateOptions_throws_Error by blast
  with rules show ?thesis by blast
qed

theorem validateOptions_rule_order_witness:
  "validateOptions \<lparr>fileName = None, fileType = Some ''json'', fromFormat = Some ''csv'',
                    toFormat = Some ''txt'', csvHeaders = None\<rparr> = Inl (Error msgBothModes)
   \<and> validateOptions \<lparr>fileName = None, fileType = None, fromFormat = Some ''csv'',
                      toFormat = None, csvHeaders = None\<rparr> = Inl (Error msgTogether)
   \<and> validateOptions \<lparr>fileName = None, fileType = Some ''xml'', fromFormat = None,
                      toFormat = None, csvHeaders = None\<rparr>
       = Inl (Error ''Invalid fileType: xml. Must be one of: txt, json, csv'')
   \<and> validateOptions \<lparr>fileName = None, fileType = None, fromFormat = Some ''csv'',
                      toFormat = Some ''csv'', csvHeaders = None\<rparr>
       = Inl (Error (msgSame ''csv'' ''csv''))
   \<and> validateOptions \<lparr>fileName = None, fileType = None, fromFormat = Some ''csv'',
                      toFormat = Some ''json'', csvHeaders = None\<rparr> = Inr ()
   \<and> (case validateOptions \<lparr>fileName = None, fileType = Some ''xml'', fromFormat = None,
                             toFormat = None, csvHeaders = None\<rparr> of
        Inl x \<Rightarrow> errorName x | Inr u \<Rightarrow> []) = ''Error''"
  using
    validateOptions_rule_order [of "\<lparr>fileName = None, fileType = Some ''json'',
      fromFormat = Some ''csv'', toFormat = Some ''txt'', csvHeaders = None\<rparr>"]
    validateOptions_rule_order [of "\<lparr>fileName = None, fileType = None,
      fromFormat = Some ''csv'', toFormat = None, csvHeaders = None\<rparr>"]
    validateOptions_rule_order [of "\<lparr>fileName = None, fileType = Some ''xml'',
      fromFormat = None, toFormat = None, csvHeaders = None\<rparr>"]
    validateOptions_rule_order [of "\<lparr>fileName = None, fileType = None,
      fromFormat = Some ''csv'', toFormat = Some ''csv'', csvHeaders = None\<rparr>"]
    validateOptions_rule_order [of "\<lparr>fileName = None, fileType = None,
      fromFormat = Some ''csv'', toFormat = Some ''json'', csvHeaders = None\<rparr>"]
  by (simp add: bothModes_def oneOfPair_def invalidTags_def givenTag_def sameFormat_def
      msgInvalid_def validFormats_def)

subsection \<open>The lines of a text\<close>

lemma splitOn_more_lines: "c \<in> set s \<Longrightarrow> 1 < length (splitOn c s)"
proof (induction s)
  case Nil
  then show ?case by simp
next
  case (Cons x xs)
  show ?case
  proof (cases "x = c")
    case True
    then show ?thesis using splitOn_nonempty [of c xs] by (cases "splitOn c xs") simp_all
  next
    case False
    then have "1 < length (splitOn c xs)" using Cons by simp
    then show ?thesis using False by (cases "splitOn c xs") simp_all
  qed
qed

lemma map_zip_index:
  "map (\<lambda>(x, i). f x i) (zip xs [0..<length xs]) = map (\<lambda>i. f (xs ! i) i) [0..<length xs]"
  by (rule nth_equalityI) simp_all

subsection \<open>The name of the file\<close>

lemma digitChar_code: "d < 10 \<Longrightarrow> (of_char (digitChar d) :: nat) = 48 + d"
proof -
  assume "d < 10"
  then have "d \<in> {0, 1, 2, 3, 4, 5, 6, 7, 8, 9}" by auto
  then show ?thesis by (auto simp add: digitChar_def)
qed

lemma showNat_digits: "list_all isDigit (showNat n)"
proof (induction n rule: showNat.induct)
  case (1 n)
  show ?case
  proof (cases "n < 10")
    case True
    then show ?thesis by (simp add: showNat.simps [of n] isDigit_def digitChar_code)
  next
    case False
    then show ?thesis using 1 by (simp add: showNat.simps [of n] isDigit_def digitChar_code)
  qed
qed

lemma hexDigit_isHexChar: "isHexChar (hexDigit n)"
  unfolding isHexChar_def hexDigit_def by (rule nth_mem) simp

text \<open>
  Claim C9. A given name that contains a dot is the file name as it is, whatever the
  output format (\<open>report.txt\<close> with \<open>csv\<close> stays \<open>report.txt\<close>); a given name without a
  dot gets a dot and the output format appended (\<open>report\<close> with \<open>csv\<close> is
  \<open>report.csv\<close>); with no name, or the empty name, the file name is \<open>alert-\<close>, the
  decimal digits of the timestamp, \<open>-\<close>, eight hexadecimal digits, a dot and the format.
\<close>

theorem resolveFileName_cases:
  "(DOT \<in> set name \<longrightarrow> resolveFileName (Some name) fmt ts r = name)
   \<and> (name \<noteq> [] \<and> DOT \<notin> set name \<longrightarrow> resolveFileName (Some name) fmt ts r = name @ ''.'' @ fmt)
   \<and> resolveFileName (Some ''report.txt'') ''csv'' ts r = ''report.txt''
   \<and> resolveFileName (Some ''report'') ''csv'' ts r = ''report.csv''
   \<and> resolveFileName None fmt ts r = ''alert-'' @ showNat ts @ ''-'' @ hexBytes r @ ''.'' @ fmt
   \<and> resolveFileName (Some []) fmt ts r = ''alert-'' @ showNat ts @ ''-'' @ hexBytes r @ ''.'' @ fmt
   \<and> list_all isDigit (showNat ts)
   \<and> length (hexBytes r) = 8 \<and> list_all isHexChar (hexBytes r)"
proof -
  obtain a b c d where r: "r = (a, b, c, d)" by (cases r) auto
  have "length (hexBytes r) = 8" "list_all isHexChar (hexBytes r)"
    by (simp_all add: r hexBytes_def hexByte_def hexDigit_isHexChar)
  moreover have "DOT \<in> set name \<Longrightarrow> name \<noteq> []" by auto
  ultimately show ?thesis
    by (auto simp add: resolveFileName_def showNat_digits)
qed

theorem resolveFileName_cases_witness:
  "resolveFileName (Some ''a.b.json'') ''txt'' 0 (0, 0, 0, 0) = ''a.b.json''
   \<and> resolveFileName (Some ''data'') ''json'' 0 (0, 0, 0, 0) = ''data.json''
   \<and> resolveFileName None ''csv'' 1234 (0xde, 0xad, 0x0e, 0xef) = ''alert-1234-dead0eef.csv''"
  using resolveFileName_cases [of "''a.b.json''" "''txt''" 0 "(0, 0, 0, 0)"]
    resolveFileName_cases [of "''data''" "''json''" 0 "(0, 0, 0, 0)"]
    resolveFileName_cases [of "[]" "''csv''" 1234 "(0xde, 0xad, 0x0e, 0xef)"]
  by (simp add: showNat.simps digitChar_def hexBytes_def hexByte_def hexDigit_def)

subsection \<open>Writing text\<close>

text \<open>
  A plain object that has a \<open>message\<close> and a \<open>stack\<close> field is not an instance of
  \<open>Error\<close>: it is written as JSON text, not in the \<open>ERROR:\<close> layout.
\<close>

theorem createTextFile_plain_object_counterexample:
  "createTextFile (JObj [(''message'', JStr ''m''), (''stack'', JStr ''s'')])
   \<noteq> ''ERROR: m'' @ [NL, NL] @ ''STACK TRACE:'' @ [NL] @ ''s''"
  by (simp add: createTextFile_def csv_eval serializeProps.simps)

text \<open>
  Claim C8, amended. \<open>createTextFile\<close> writes a string as it is; an instance of \<open>Error\<close>
  as \<open>ERROR: \<close> and the message, an empty line, \<open>STACK TRACE:\<close> and the stack, or
  \<open>No stack trace\<close> when the stack is absent or empty; every other value of type
  \<open>'object'\<close> (a plain object, also one with \<open>message\<close> and \<open>stack\<close> fields, an array,
  \<open>null\<close>) as JSON text indented by two spaces.
\<close>

theorem createTextFile_cases:
  "createTextFile (JStr s) = s
   \<and> createTextFile (JError m st)
       = ''ERROR: '' @ m @ [NL, NL] @ ''STACK TRACE:'' @ [NL]
         @ (case st of Some t \<Rightarrow> if t = [] then ''No stack trace'' else t
            | None \<Rightarrow> ''No stack trace'')
   \<and> createTextFile (JObj ps) = jsonStringify ''  '' (JObj ps)
   \<and> createTextFile (JArr xs) = jsonStringify ''  '' (JArr xs)
   \<and> createTextFile JNull = ''null''
   \<and> createTextFile (JObj [(''message'', JStr ''m''), (''stack'', JStr ''s'')])
       = ''{'' @ [NL] @ ''  '' @ [DQ] @ ''message'' @ [DQ] @ '': '' @ [DQ] @ ''m'' @ [DQ] @ '',''
         @ [NL] @ ''  '' @ [DQ] @ ''stack'' @ [DQ] @ '': '' @ [DQ] @ ''s'' @ [DQ] @ [NL] @ ''}''"
  by (auto simp add: createTextFile_def csv_eval split: option.splits)

theorem createTextFile_cases_witness:
  "createTextFile (JError ''boom'' None)
     = ''ERROR: boom'' @ [NL, NL] @ ''STACK TRACE:'' @ [NL] @ ''No stack trace''
   \<and> createTextFile (JObj [(''a'', JNum 1), (''b'', JArr [JBool True, JNull])])
     = ''{'' @ [NL] @ ''  '' @ [DQ] @ ''a'' @ [DQ] @ '': 1,'' @ [NL]
       @ ''  '' @ [DQ] @ ''b'' @ [DQ] @ '': ['' @ [NL]
       @ ''    true,'' @ [NL] @ ''    null'' @ [NL] @ ''  ]'' @ [NL] @ ''}''"
  using createTextFile_cases [of "[]" "''boom''" None "[(''a'', JNum 1), (''b'', JArr [JBool True, JNull])]" "[]"]
  by (simp add: csv_eval)

subsection \<open>The metadata of a JSON file\<close>

lemma map_of_setOwn: "map_of (setOwn k v ps) = (map_of ps)(k \<mapsto> v)"
  by (induction ps) auto

lemma map_of_filter_key:
  "map_of (filter (\<lambda>p. P (fst p)) ps) k = (if P k then map_of ps k else None)"
  by (induction ps) auto

lemma filter_key_refine:
  "filter (\<lambda>p. fst p = k) xs = filter (\<lambda>p. fst p = k) (filter (\<lambda>p. g (fst p) = g k) xs)"
  by (induction xs) auto

lemma filter_key_sort:
  "filter (\<lambda>p. fst p = k) (sort_key (\<lambda>p. g (fst p)) ps) = filter (\<lambda>p. fst p = k) ps"
proof -
  have "filter (\<lambda>p. fst p = k) (sort_key (\<lambda>p. g (fst p)) ps)
        = filter (\<lambda>p. fst p = k) (filter (\<lambda>p. g (fst p) = g k) (sort_key (\<lambda>p. g (fst p)) ps))"
    by (rule filter_key_refine)
  also have "\<dots> = filter (\<lambda>p. fst p = k) (filter (\<lambda>p. g (fst p) = g k) ps)"
    by (simp only: sort_key_stable)
  also have "\<dots> = filter (\<lambda>p. fst p = k) ps"
    by (rule filter_key_refine [symmetric])
  finally show ?thesis .
qed

lemma map_of_by_key: "map_of ps k = map_of (filter (\<lambda>p. fst p = k) ps) k"
  by (simp add: map_of_filter_key [of "\<lambda>x. x = k"])

lemma map_of_sort_key: "map_of (sort_key (\<lambda>p. g (fst p)) ps) k = map_of ps k"
  using map_of_by_key [of "sort_key (\<lambda>p. g (fst p)) ps" k] map_of_by_key [of ps k]
  by (simp add: filter_key_sort)

lemma map_of_enumOrder: "map_of (enumOrder ps) k = map_of ps k"
  by (simp add: enumOrder_def map_add_def map_of_sort_key
      map_of_filter_key [of isIndexKey] map_of_filter_key [of "\<lambda>x. \<not> isIndexKey x"]
      split: option.splits)

lemma readNat_snoc: "readNat (s @ [c]) = 10 * readNat s + (of_char c - 48)"
  by (simp add: readNat_def)

lemma readNat_showNat: "readNat (showNat n) = n"
proof (induction n rule: showNat.induct)
  case (1 n)
  show ?case
  proof (cases "n < 10")
    case True
    then show ?thesis by (simp add: showNat.simps [of n] readNat_def digitChar_code)
  next
    case False
    then show ?thesis using 1
      by (simp add: showNat.simps [of n] readNat_snoc digitChar_code)
  qed
qed

lemma showNat_inj: "inj showNat"
  by (rule inj_on_inverseI [of _ readNat]) (simp add: readNat_showNat)

lemma map_of_index_props:
  "i < length xs \<Longrightarrow> map_of (zip (map showNat [0..<length xs]) xs) (showNat i) = Some (xs ! i)"
proof -
  assume i: "i < length xs"
  have d: "distinct (map showNat [0..<length xs])"
    by (simp add: distinct_map inj_on_subset [OF showNat_inj])
  show ?thesis
    using map_of_zip_nth [of "map showNat [0..<length xs]" xs i] i d by simp
qed

lemma showNat_not_metadata: "showNat i \<noteq> ''_metadata''"
proof
  assume "showNat i = ''_metadata''"
  then have "list_all isDigit ''_metadata''" using showNat_digits [of i] by simp
  then show False by (simp add: isDigit_def)
qed

text \<open>
  Claim C7. The object that \<open>createJsonFile\<close> serializes has the field \<open>_metadata\<close> with
  the value \<open>{generatedAt, source: 'error-notifier', format: 'json'}\<close>, whatever the data
  held under that name; every other field is the own enumerable property of the data of
  that name: for a plain object its field, for an array (such as the rows that
  \<open>parseCsvData\<close> returns) the element at index \<open>i\<close> under the key \<open>i\<close>.
\<close>

theorem finalData_metadata_frame:
  "map_of (finalData parse tData tMeta data) ''_metadata''
     = Some (JObj [(''generatedAt'', JStr tMeta), (''source'', JStr ''error-notifier''),
                   (''format'', JStr ''json'')])
   \<and> (\<forall>k. k \<noteq> ''_metadata'' \<longrightarrow>
         map_of (finalData parse tData tMeta data) k
           = map_of (ownEnumerable (jsonData parse tData data)) k)
   \<and> (\<forall>k. k \<noteq> ''_metadata'' \<longrightarrow> map_of (finalData parse tData tMeta (JObj ps)) k = map_of ps k)
   \<and> (\<forall>i. i < length xs \<longrightarrow>
         map_of (finalData parse tData tMeta (JArr xs)) (showNat i) = Some (xs ! i))
   \<and> createJsonFile parse tData tMeta data
       = jsonStringify ''  '' (JObj (finalData parse tData tMeta data))"
proof -
  have a: "map_of (finalData parse tData tMeta data) ''_metadata''
     = Some (JObj [(''generatedAt'', JStr tMeta), (''source'', JStr ''error-notifier''),
                   (''format'', JStr ''json'')])"
    by (simp add: finalData_def map_of_setOwn metadata_def)
  have b: "map_of (finalData parse tData tMeta d) k = map_of (ownEnumerable (jsonData parse tData d)) k"
    if "k \<noteq> ''_metadata''" for k d
    using that by (simp add: finalData_def map_of_setOwn)
  have c: "map_of (finalData parse tData tMeta (JObj ps)) k = map_of ps k"
    if "k \<noteq> ''_metadata''" for k
    using b [OF that, of "JObj ps"] by (simp add: jsonData_def map_of_enumOrder)
  have d: "map_of (finalData parse tData tMeta (JArr xs)) (showNat i) = Some (xs ! i)"
    if "i < length xs" for i
    using b [OF showNat_not_metadata, of "JArr xs" i] that
    by (simp add: jsonData_def map_of_index_props)
  from a b c d show ?thesis
    by (simp add: createJsonFile_def)
qed

theorem finalData_metadata_frame_witness:
  "map_of (finalData (\<lambda>s. None) ''t1'' ''t2'' (JObj [(''x'', JNum 1), (''_metadata'', JStr ''mine'')]))
       ''_metadata''
     = Some (JObj [(''generatedAt'', JStr ''t2''), (''source'', JStr ''error-notifier''),
                   (''format'', JStr ''json'')])
   \<and> map_of (finalData (\<lambda>s. None) ''t1'' ''t2'' (JObj [(''x'', JNum 1), (''_metadata'', JStr ''mine'')]))
       ''x'' = Some (JNum 1)
   \<and> map_of (finalData (\<lambda>s. None) ''t1'' ''t2'' (JArr [JObj [(''a'', JStr ''1'')]])) ''0''
     = Some (JObj [(''a'', JStr ''1'')])"
proof -
  note t = finalData_metadata_frame [of "\<lambda>s. None" "''t1''" "''t2''"
      "JObj [(''x'', JNum 1), (''_metadata'', JStr ''mine'')]"
      "[(''x'', JNum 1), (''_metadata'', JStr ''mine'')]" "[JObj [(''a'', JStr ''1'')]]"]
  have a: "map_of (finalData (\<lambda>s. None) ''t1'' ''t2''
             (JObj [(''x'', JNum 1), (''_metadata'', JStr ''mine'')])) ''_metadata''
     = Some (JObj [(''generatedAt'', JStr ''t2''), (''source'', JStr ''error-notifier''),
                   (''format'', JStr ''json'')])"
    using t by blast
  have "''x'' \<noteq> ''_metadata'' \<longrightarrow>
        map_of (finalData (\<lambda>s. None) ''t1'' ''t2''
             (JObj [(''x'', JNum 1), (''_metadata'', JStr ''mine'')])) ''x''
        = map_of [(''x'', JNum 1), (''_metadata'', JStr ''mine'')] ''x''"
    using t by blast
  then have b: "map_of (finalData (\<lambda>s. None) ''t1'' ''t2''
             (JObj [(''x'', JNum 1), (''_metadata'', JStr ''mine'')])) ''x'' = Some (JNum 1)"
    by simp
  have "0 < length [JObj [(''a'', JStr ''1'')]] \<longrightarrow>
        map_of (finalData (\<lambda>s. None) ''t1'' ''t2'' (JArr [JObj [(''a'', JStr ''1'')]])) (showNat 0)
        = Some ([JObj [(''a'', JStr ''1'')]] ! 0)"
    using t by blast
  then have c: "map_of (finalData (\<lambda>s. None) ''t1'' ''t2'' (JArr [JObj [(''a'', JStr ''1'')]])) ''0''
     = Some (JObj [(''a'', JStr ''1'')])"
    by (simp add: showNat.simps digitChar_def)
  from a b c show ?thesis by blast
qed

subsection \<open>Multi-line text converted to JSON\<close>

lemma setOwn_fresh: "k \<notin> set (map fst ps) \<Longrightarrow> setOwn k v ps = ps @ [(k, v)]"
  by (induction ps) auto

lemma index_keys_not_metadata: "''_metadata'' \<notin> set (map fst (zip (map showNat ns) xs))"
proof
  assume "''_metadata'' \<in> set (map fst (zip (map showNat ns) xs))"
  then obtain b where "(''_metadata'', b) \<in> set (zip (map showNat ns) xs)"
    by auto
  then have "''_metadata'' \<in> set (map showNat ns)"
    by (rule set_zip_leftD)
  then obtain n where "showNat n = ''_metadata''" by auto
  then show False using showNat_not_metadata [of n] by simp
qed

lemma finalData_array:
  "finalData parse tData tMeta (JArr xs)
   = zip (map showNat [0..<length xs]) xs @ [(''_metadata'', metadata tMeta)]"
  by (simp add: finalData_def jsonData_def setOwn_fresh [OF index_keys_not_metadata])

lemma convert_txt_json:
  "convertAndCreateFile e data ''txt'' ''json'' hs
   = Inr (Some (jsonStringify ''  ''
       (JObj (finalData (jsonParse e) (isoData e) (isoMeta e) (parseTextData (isoText e) data)))))"
  by (simp add: convertAndCreateFile_def createJsonFile_def)

text \<open>
  The file of the conversion of \<open>"L1\nL2"\<close> from text to JSON is not the JSON text of
  the array of the two records: \<open>createJsonFile\<close> spreads the array into an object.
\<close>

theorem txt_to_json_counterexample:
  "convertAndCreateFile
     \<lparr>jsonParse = (\<lambda>s. None), tempDir = ''tmp'', pathJoin = (\<lambda>a b. a @ ''/'' @ b),
      timestampMillis = 0, randomBytes = (0, 0, 0, 0), isoText = ''t'', isoData = ''t'',
      isoMeta = ''t''\<rparr>
     (JStr (''L1'' @ [NL] @ ''L2'')) ''txt'' ''json'' None
   = Inr (Some (jsonStringify ''  ''
       (JObj [(''0'', JObj [(''lineNumber'', JNum 1), (''content'', JStr ''L1''),
                            (''characterCount'', JNum 2)]),
              (''1'', JObj [(''lineNumber'', JNum 2), (''content'', JStr ''L2''),
                            (''characterCount'', JNum 2)]),
              (''_metadata'', metadata ''t'')])))
   \<and> convertAndCreateFile
     \<lparr>jsonParse = (\<lambda>s. None), tempDir = ''tmp'', pathJoin = (\<lambda>a b. a @ ''/'' @ b),
      timestampMillis = 0, randomBytes = (0, 0, 0, 0), isoText = ''t'', isoData = ''t'',
      isoMeta = ''t''\<rparr>
     (JStr (''L1'' @ [NL] @ ''L2'')) ''txt'' ''json'' None
   \<noteq> Inr (Some (jsonStringify ''  ''
       (JArr [JObj [(''lineNumber'', JNum 1), (''content'', JStr ''L1''),
                    (''characterCount'', JNum 2)],
              JObj [(''lineNumber'', JNum 2), (''content'', JStr ''L2''),
                    (''characterCount'', JNum 2)]])))"
  by (simp add: convert_txt_json finalData_array parseTextData_def trim_def isWhiteSpace_def
      lineRecord_def upt_rec metadata_def csv_eval)

text \<open>
  Claim C6, amended. \<open>parseTextData\<close> turns the text \<open>"L1\nL2"\<close> into the two records
  with line numbers 1 and 2, contents \<open>L1\<close> and \<open>L2\<close> and character counts 2; for every
  string whose trimmed form has more than one line, it returns the records of the lines
  in order: the line number counts from 1, the content is the trimmed line, the character
  count is the length of the line before that trimming. The conversion from text to JSON
  writes the JSON text, indented by two spaces, of the object that holds these records
  under the keys \<open>0\<close>, \<open>1\<close>, ... in order, followed by \<open>_metadata\<close>.
\<close>

theorem txt_to_json_multi_line:
  "parseTextData now (JStr (''L1'' @ [NL] @ ''L2''))
     = JArr [JObj [(''lineNumber'', JNum 1), (''content'', JStr ''L1''), (''characterCount'', JNum 2)],
             JObj [(''lineNumber'', JNum 2), (''content'', JStr ''L2''), (''characterCount'', JNum 2)]]
   \<and> (1 < length (splitOn NL (trim s)) \<longrightarrow>
        parseTextData now (JStr s)
          = JArr (map (\<lambda>i. JObj [(''lineNumber'', JNum (int i + 1)),
                                  (''content'', JStr (trim (splitOn NL (trim s) ! i))),
                                  (''characterCount'', JNum (int (length (splitOn NL (trim s) ! i))))])
                    [0..<length (splitOn NL (trim s))]))
   \<and> (1 < length (splitOn NL (trim s)) \<longrightarrow>
        convertAndCreateFile e (JStr s) ''txt'' ''json'' hs
          = Inr (Some (jsonStringify ''  ''
              (JObj (zip (map showNat [0..<length (splitOn NL (trim s))])
                       (map (\<lambda>i. JObj [(''lineNumber'', JNum (int i + 1)),
                                  (''content'', JStr (trim (splitOn NL (trim s) ! i))),
                                  (''characterCount'', JNum (int (length (splitOn NL (trim s) ! i))))])
                          [0..<length (splitOn NL (trim s))])
                     @ [(''_metadata'',
                         JObj [(''generatedAt'', JStr (isoMeta e)),
                               (''source'', JStr ''error-notifier''),
                               (''format'', JStr ''json'')])])))))"
proof -
  have a: "parseTextData now (JStr (''L1'' @ [NL] @ ''L2''))
     = JArr [JObj [(''lineNumber'', JNum 1), (''content'', JStr ''L1''), (''characterCount'', JNum 2)],
             JObj [(''lineNumber'', JNum 2), (''content'', JStr ''L2''), (''characterCount'', JNum 2)]]"
    by (simp add: parseTextData_def trim_def isWhiteSpace_def lineRecord_def upt_rec)
  have b: "parseTextData t (JStr s)
          = JArr (map (\<lambda>i. JObj [(''lineNumber'', JNum (int i + 1)),
                                  (''content'', JStr (trim (splitOn NL (trim s) ! i))),
                                  (''characterCount'', JNum (int (length (splitOn NL (trim s) ! i))))])
                    [0..<length (splitOn NL (trim s))])"
    if "1 < length (splitOn NL (trim s))" for t
    using that by (simp add: parseTextData_def Let_def map_zip_index lineRecord_def)
  have c: "convertAndCreateFile e (JStr s) ''txt'' ''json'' hs
          = Inr (Some (jsonStringify ''  ''
              (JObj (zip (map showNat [0..<length (splitOn NL (trim s))])
                       (map (\<lambda>i. JObj [(''lineNumber'', JNum (int i + 1)),
                                  (''content'', JStr (trim (splitOn NL (trim s) ! i))),
                                  (''characterCount'', JNum (int (length (splitOn NL (trim s) ! i))))])
                          [0..<length (splitOn NL (trim s))])
                     @ [(''_metadata'',
                         JObj [(''generatedAt'', JStr (isoMeta e)),
                               (''source'', JStr ''error-notifier''),
                               (''format'', JStr ''json'')])]))))"
    if "1 < length (splitOn NL (trim s))"
    by (simp add: convert_txt_json b [OF that] finalData_array metadata_def)
  from a b c show ?thesis by blast
qed

theorem txt_to_json_multi_line_witness:
  "parseTextData ''T'' (JStr (''  a '' @ [NL] @ '' bc'' @ [NL]))
     = JArr [JObj [(''lineNumber'', JNum 1), (''content'', JStr ''a''), (''characterCount'', JNum 2)],
             JObj [(''lineNumber'', JNum 2), (''content'', JStr ''bc''), (''characterCount'', JNum 3)]]
   \<and> convertAndCreateFile
       \<lparr>jsonParse = (\<lambda>s. None), tempDir = ''tmp'',
         pathJoin = (\<lambda>a b. a @ ''/'' @ b), timestampMillis = 0, randomBytes = (0, 0, 0, 0),
         isoText = ''t'', isoData = ''t'', isoMeta = ''t''\<rparr>
       (JStr (''  a '' @ [NL] @ '' bc'' @ [NL])) ''txt'' ''json'' None
     = Inr (Some (jsonStringify ''  ''
         (JObj [(''0'', JObj [(''lineNumber'', JNum 1), (''content'', JStr ''a''),
                              (''characterCount'', JNum 2)]),
                (''1'', JObj [(''lineNumber'', JNum 2), (''content'', JStr ''bc''),
                              (''characterCount'', JNum 3)]),
                (''_metadata'', JObj [(''generatedAt'', JStr ''t''),
                                      (''source'', JStr ''error-notifier''),
                                      (''format'', JStr ''json'')])])))"
  using txt_to_json_multi_line [of "''T''" "''  a '' @ [NL] @ '' bc'' @ [NL]"
      "\<lparr>jsonParse = (\<lambda>s. None), tempDir = ''tmp'',
         pathJoin = (\<lambda>a b. a @ ''/'' @ b), timestampMillis = 0, randomBytes = (0, 0, 0, 0),
         isoText = ''t'', isoData = ''t'', isoMeta = ''t''\<rparr>" None]
  by (simp add: trim_def isWhiteSpace_def upt_rec showNat.simps digitChar_def)

subsection \<open>Parsing a CSV text and writing it back\<close>

lemma joinWith_Cons_Cons: "joinWith sep ((x # y) # ys) = x # joinWith sep (y # ys)"
  by (cases ys) simp_all

lemma joinWith_splitOn: "joinWith [c] (splitOn c s) = s"
proof (induction s)
  case Nil
  show ?case by simp
next
  case (Cons x xs)
  obtain y ys where r: "splitOn c xs = y # ys"
    using splitOn_nonempty [of c xs] by (cases "splitOn c xs") auto
  show ?case
  proof (cases "x = c")
    case True
    then show ?thesis using Cons r by simp
  next
    case False
    then show ?thesis using Cons r by (simp add: joinWith_Cons_Cons)
  qed
qed

lemma splitOn_absent: "c \<notin> set s \<Longrightarrow> splitOn c s = [s]"
  by (induction s) auto

lemma splitOn_chars: "f \<in> set (splitOn c s) \<Longrightarrow> set f \<subseteq> set s \<and> c \<notin> set f"
proof (induction s arbitrary: f)
  case Nil
  then show ?case by simp
next
  case (Cons x xs)
  obtain y ys where r: "splitOn c xs = y # ys"
    using splitOn_nonempty [of c xs] by (cases "splitOn c xs") auto
  have y: "set y \<subseteq> set xs \<and> c \<notin> set y" using Cons.IH [of y] r by simp
  have ys: "g \<in> set ys \<Longrightarrow> set g \<subseteq> set xs \<and> c \<notin> set g" for g
    using Cons.IH [of g] r by simp
  show ?case
  proof (cases "x = c")
    case True
    then show ?thesis using Cons.prems r y ys by auto
  next
    case False
    then show ?thesis using Cons.prems r y ys by auto
  qed
qed

lemma parseCsvLoop_unquoted:
  "DQ \<notin> set line \<Longrightarrow>
   parseCsvLoop line cur False res
     = res @ (cur @ hd (splitOn COMMA line)) # tl (splitOn COMMA line)"
proof (induction line arbitrary: cur res)
  case Nil
  show ?case by simp
next
  case (Cons c rest)
  obtain y ys where r: "splitOn COMMA rest = y # ys"
    using splitOn_nonempty [of COMMA rest] by (cases "splitOn COMMA rest") auto
  from Cons.prems have c: "c \<noteq> DQ" and rest: "DQ \<notin> set rest" by auto
  show ?case
  proof (cases "c = COMMA")
    case True
    then show ?thesis using Cons.IH [OF rest, of "[]" "res @ [cur]"] r by simp
  next
    case False
    then show ?thesis using Cons.IH [OF rest, of "cur @ [c]" res] r c by simp
  qed
qed

lemma parseCsvLine_unquoted: "DQ \<notin> set line \<Longrightarrow> parseCsvLine line = splitOn COMMA line"
  using parseCsvLoop_unquoted [of line "[]" "[]"] splitOn_nonempty [of COMMA line]
  by (simp add: parseCsvLine_def)

lemma concat_lines: "ls \<noteq> [] \<Longrightarrow> concat (map (\<lambda>l. l @ sep) ls) = joinWith sep ls @ sep"
proof (induction ls rule: joinWith.induct [of _ sep])
  case (1 sep)
  then show ?case by simp
next
  case (2 sep x)
  show ?case by simp
next
  case (3 sep x y ys)
  then show ?case by simp
qed

lemma map_add_upd_swap: "M h = None \<Longrightarrow> m(h \<mapsto> v) ++ M = m ++ M(h \<mapsto> v)"
  by (rule ext) (auto simp add: map_add_def split: option.splits)

lemma fold_assign_map_of:
  "''__proto__'' \<notin> set hs \<Longrightarrow> distinct hs \<Longrightarrow> length ns = length hs \<Longrightarrow>
   map_of (foldl (\<lambda>obj (header, index). assignString header (f index) obj) acc (zip hs ns))
     = map_of acc ++ map_of (zip hs (map (\<lambda>i. JStr (f i)) ns))"
proof (induction hs arbitrary: acc ns)
  case Nil
  then show ?case by simp
next
  case (Cons h hs)
  obtain n ns' where ns: "ns = n # ns'" and len: "length ns' = length hs"
    using Cons.prems(3) by (cases ns) auto
  have none: "map_of (zip hs (map (\<lambda>i. JStr (f i)) ns')) h = None"
    using Cons.prems(2) len by (simp add: map_of_zip_is_None)
  have step: "foldl (\<lambda>obj (header, index). assignString header (f index) obj) acc (zip (h # hs) ns)
        = foldl (\<lambda>obj (header, index). assignString header (f index) obj)
            (assignString h (f n) acc) (zip hs ns')"
    by (simp add: ns)
  have ih: "map_of (foldl (\<lambda>obj (header, index). assignString header (f index) obj)
                  (assignString h (f n) acc) (zip hs ns'))
        = map_of (assignString h (f n) acc) ++ map_of (zip hs (map (\<lambda>i. JStr (f i)) ns'))"
    using Cons.IH [of ns' "assignString h (f n) acc"] Cons.prems len by simp
  have asg: "map_of (assignString h (f n) acc) = (map_of acc)(h \<mapsto> JStr (f n))"
    using Cons.prems(1) by (auto simp add: assignString_def map_of_setOwn)
  have rhs: "map_of (zip (h # hs) (map (\<lambda>i. JStr (f i)) ns))
        = (map_of (zip hs (map (\<lambda>i. JStr (f i)) ns')))(h \<mapsto> JStr (f n))"
    by (simp add: ns)
  show ?case
    by (simp only: step ih asg rhs
        map_add_upd_swap [of "map_of (zip hs (map (\<lambda>i. JStr (f i)) ns'))" h, OF none])
qed

lemma rowObject_get:
  assumes "''__proto__'' \<notin> set hs" and "distinct hs" and "i < length hs"
  shows "getProp (rowObject hs values) (hs ! i) = JStr (valueOrEmpty values i)"
proof -
  have "map_of (zip hs (map (\<lambda>i. JStr (valueOrEmpty values i)) [0..<length hs])) (hs ! i)
        = Some (map (\<lambda>i. JStr (valueOrEmpty values i)) [0..<length hs] ! i)"
    using assms by (intro map_of_zip_nth) simp_all
  then show ?thesis
    using assms fold_assign_map_of [of hs "[0..<length hs]" "valueOrEmpty values" "[]"]
    by (simp add: rowObject_def)
qed

lemma objectRow_rowObject:
  assumes "''__proto__'' \<notin> set hs" and "distinct hs"
    and "\<And>h. h \<in> set hs \<Longrightarrow> DOT \<notin> set h"
    and "length values = length hs"
    and "\<And>v. v \<in> set values \<Longrightarrow> \<not> needsQuoting v"
  shows "objectRow (rowObject hs values) hs = joinWith '','' values"
proof -
  have cell: "csvField (getNestedValue (rowObject hs values) (hs ! i)) = values ! i"
    if i: "i < length hs" for i
  proof -
    have "splitOn DOT (hs ! i) = [hs ! i]"
      using assms(3) i by (simp add: splitOn_absent)
    moreover obtain ps where "rowObject hs values = JObj ps"
      by (simp add: rowObject_def)
    ultimately have "getNestedValue (rowObject hs values) (hs ! i)
                     = getProp (rowObject hs values) (hs ! i)"
      by (simp add: getNestedValue_def)
    then have "getNestedValue (rowObject hs values) (hs ! i) = JStr (values ! i)"
      using rowObject_get [OF assms(1) assms(2) i, of "values"] i assms(4)
      by (simp add: valueOrEmpty_def)
    moreover have "\<not> needsQuoting (values ! i)"
      using assms(5) [of "values ! i"] i assms(4) by simp
    ultimately show ?thesis
      by (simp add: csvField_def csvEscape_def)
  qed
  have "map (\<lambda>header. csvField (getNestedValue (rowObject hs values) header)) hs = values"
    using cell assms(4) by (intro nth_equalityI) simp_all
  then show ?thesis by (simp add: objectRow_def)
qed

lemmas roundtrip_eval = reserialize_def parse_eval csv_eval isWhiteSpace_def

text \<open>
  Texts without commas, quotes or newlines inside their fields that do not come back: a
  data line shorter than the header line is padded, a missing final newline is added, a
  text of the header line alone becomes \<open>No data\<close>, a header with a dot is looked up
  as a path, a repeated header reads the last value twice.
\<close>

theorem reserialize_counterexample:
  "reserialize (''a,b'' @ [NL] @ ''1'' @ [NL]) = Inr (''a,b'' @ [NL] @ ''1,'' @ [NL])
   \<and> reserialize (''a,b'' @ [NL] @ ''1'' @ [NL]) \<noteq> Inr (''a,b'' @ [NL] @ ''1'' @ [NL])
   \<and> reserialize (''a,b'' @ [NL] @ ''1,2'') \<noteq> Inr (''a,b'' @ [NL] @ ''1,2'')
   \<and> reserialize (''a,b'' @ [NL]) \<noteq> Inr (''a,b'' @ [NL])
   \<and> reserialize (''a.x'' @ [NL] @ ''1'' @ [NL]) \<noteq> Inr (''a.x'' @ [NL] @ ''1'' @ [NL])
   \<and> reserialize (''a,a'' @ [NL] @ ''1,2'' @ [NL]) \<noteq> Inr (''a,a'' @ [NL] @ ''1,2'' @ [NL])"
  by (simp add: roundtrip_eval)

text \<open>
  Claim C3, amended. Let \<open>s\<close> contain no double quote and end with one newline, with no
  other white space at its ends; let its first line split into distinct header names,
  none with a dot and none \<open>__proto__\<close>; let it have at least one data line, and every
  data line as many fields as the header line. Then parsing \<open>s\<close> with the headers taken
  from the first line and writing the table back with those headers gives \<open>s\<close>.
\<close>

theorem reserialize_roundtrip:
  assumes "DQ \<notin> set s" and "s = trim s @ [NL]"
    and "1 < length (splitOn NL (trim s))"
    and "distinct (parseCsvLine (hd (splitOn NL (trim s))))"
    and "''__proto__'' \<notin> set (parseCsvLine (hd (splitOn NL (trim s))))"
    and "\<forall>h \<in> set (parseCsvLine (hd (splitOn NL (trim s)))). DOT \<notin> set h"
    and "\<forall>line \<in> set (tl (splitOn NL (trim s))).
           length (parseCsvLine line) = length (parseCsvLine (hd (splitOn NL (trim s))))"
  shows "reserialize s = Inr s"
proof -
  define lines where "lines = splitOn NL (trim s)"
  define hs where "hs = parseCsvLine (hd lines)"
  obtain l ls where lines: "lines = l # ls" and ls: "ls \<noteq> []"
    using assms(3) unfolding lines_def [symmetric] by (cases lines; cases "tl lines") auto
  have sub: "set (trim s) \<subseteq> set s"
    using assms(2) by (metis set_append sup_ge1)
  have line_chars: "DQ \<notin> set x \<and> NL \<notin> set x" if "x \<in> set lines" for x
    using splitOn_chars [of x NL "trim s"] that sub assms(1) by (auto simp add: lines_def)
  have parse: "parseCsvLine x = splitOn COMMA x" if "x \<in> set lines" for x
    using line_chars [OF that] by (simp add: parseCsvLine_unquoted)
  have plain: "\<not> needsQuoting v" if "x \<in> set lines" and "v \<in> set (parseCsvLine x)" for x v
    using splitOn_chars [of v COMMA x] that line_chars [OF that(1)] parse [OF that(1)]
    by (auto simp add: needsQuoting_def)
  have header: "joinWith '','' hs = l"
    using parse [of l] by (simp add: hs_def lines joinWith_splitOn)
  have row: "objectRow (rowObject hs (parseCsvLine x)) hs = x" if "x \<in> set ls" for x
  proof -
    have x: "x \<in> set lines" using that by (simp add: lines)
    have "objectRow (rowObject hs (parseCsvLine x)) hs = joinWith '','' (parseCsvLine x)"
      using assms(4-7) that plain [OF x]
      by (intro objectRow_rowObject) (auto simp add: hs_def lines_def [symmetric] lines)
    then show ?thesis using parse [OF x] by (simp add: joinWith_splitOn)
  qed
  have rows: "concat (map (\<lambda>item. objectRow item hs @ [NL])
                 (map (\<lambda>line. rowObject hs (parseCsvLine line)) ls))
              = concat (map (\<lambda>x. x @ [NL]) ls)"
    using row by (simp add: comp_def cong: map_cong)
  have table: "parseCsvData (JStr s) None
               = Inr (JArr (map (\<lambda>line. rowObject hs (parseCsvLine line)) ls))"
    using lines by (simp add: parseCsvData_def Let_def lines_def [symmetric] hs_def)
  obtain r rs where rs: "map (\<lambda>line. rowObject hs (parseCsvLine line)) ls = r # rs"
    and r: "typeofObject r \<and> \<not> isArray r"
    using ls by (cases ls) (auto simp add: rowObject_def)
  have "createCsvFile (JArr (map (\<lambda>line. rowObject hs (parseCsvLine line)) ls)) (Some hs)
        = Inr (l @ [NL] @ concat (map (\<lambda>x. x @ [NL]) ls))"
    using r rows header unfolding createCsvFile_def rs [symmetric]
    by (simp add: rs)
  also have "l @ [NL] @ concat (map (\<lambda>x. x @ [NL]) ls) = concat (map (\<lambda>x. x @ [NL]) lines)"
    by (simp add: lines)
  also have "\<dots> = joinWith [NL] lines @ [NL]"
    using lines by (intro concat_lines) simp
  also have "\<dots> = s"
    using assms(2) by (simp add: lines_def joinWith_splitOn)
  finally show ?thesis
    using table by (simp add: reserialize_def hs_def lines_def)
qed

theorem reserialize_roundtrip_witness:
  "reserialize (''id,name'' @ [NL] @ ''1,ann lee'' @ [NL] @ ''2,'' @ [NL])
   = Inr (''id,name'' @ [NL] @ ''1,ann lee'' @ [NL] @ ''2,'' @ [NL])"
  by (rule reserialize_roundtrip) (simp_all add: trim_def isWhiteSpace_def parseCsvLine_def)

subsection \<open>Quoted fields written and read back\<close>










subsection \<open>Through \<open>createFileFromData\<close>\<close>

text \<open>
  The path that \<open>createFileFromData\<close> returns joins the temporary directory and the
  name that \<open>resolveFileName\<close> computes.
\<close>

lemma createFileFromData_path:
  "createFileFromData e data opts = Inr (path, written) \<Longrightarrow>
   path = pathJoin e (tempDir e)
            (resolveFileName (fileName opts) (fst (outputFormat opts)) (timestampMillis e)
               (randomBytes e))"
  by (auto simp add: createFileFromData_def Let_def split: sum.splits)

lemma createFileFromData_report_txt_as_csv:
  "createFileFromData e (JArr [])
     \<lparr>fileName = Some ''report.txt'', fileType = Some ''csv'', fromFormat = None,
      toFormat = None, csvHeaders = None\<rparr>
   = Inr (pathJoin e (tempDir e) ''report.txt'', Some ''No data'')"
  by (simp add: createFileFromData_def validateOptions_def validFormats_def outputFormat_def
      resolveFileName_def createFileDirectly_def createCsvFile_def)

text \<open>
  The file of the conversion from text to JSON: \<open>createJsonFile\<close> spreads the array of
  line records, which appear under their indices beside \<open>_metadata\<close>.
\<close>

lemma txt_to_json_fields:
  "finalData p t1 t2 (parseTextData now (JStr (''L1'' @ [NL] @ ''L2'')))
   = [(''0'', JObj [(''lineNumber'', JNum 1), (''content'', JStr ''L1''), (''characterCount'', JNum 2)]),
      (''1'', JObj [(''lineNumber'', JNum 2), (''content'', JStr ''L2''), (''characterCount'', JNum 2)]),
      (''_metadata'', metadata t2)]"
  by (simp add: finalData_def jsonData_def parseTextData_def trim_def isWhiteSpace_def
      lineRecord_def upt_rec showNat.simps digitChar_def)

end
